theory Spec2Isabelle
  imports Complex_Main
begin

section \<open>The environment: exceptions, clock, files, console\<close>

text \<open>
  Every exception of the two modules is a value. The text of a \<open>ValueError\<close> is kept
  as a structured reason, so that \<open>except ValueError\<close> is a match on the constructor
  \<open>ValueError\<close> whatever the reason is:
  \<^item> \<open>NotStarted\<close>: "session has not been started yet" (session.py, line 84);
  \<^item> \<open>SessionExpired n\<close>: "session expired n seconds ago" (session.py, line 148);
  \<^item> \<open>InvalidAccessLevel l\<close>: "Invalid access level: l" (sample.py, line 50);
  \<^item> \<open>UnpackMismatch\<close>: the error of \<open>key, value = ...\<close> when the right-hand side
    does not have exactly two items (sample.py, line 73).
\<close>

datatype value_error =
    NotStarted
  | SessionExpired int
  | InvalidAccessLevel string
  | UnpackMismatch

datatype exn =
    ValueError value_error
  | PermissionError
  | TypeError
  | AttributeError
  | FileNotFoundError

datatype event = Printed string | OpenedRead string | OpenedWrite string

text \<open>
  The world outside the objects. \<open>clock w n\<close> is what the \<open>n\<close>-th call of
  \<open>time.time()\<close> returns and \<open>ticks\<close> counts the calls made so far, so each call in the
  source is one reading of its own. Readings are rationals (every finite float is one); the
  rounding of float addition and subtraction is not modelled. \<open>files\<close> maps a path to the
  text of the file, \<open>trace\<close> records what was printed and which files were opened.
\<close>

record world =
  clock :: "nat \<Rightarrow> rat"
  ticks :: nat
  files :: "string \<rightharpoonup> string"
  trace :: "event list"

definition time_time :: "world \<Rightarrow> rat \<times> world" where
  "time_time w = (clock w (ticks w), w\<lparr>ticks := Suc (ticks w)\<rparr>)"

definition print_line :: "string \<Rightarrow> world \<Rightarrow> world" where
  "print_line msg w = w\<lparr>trace := trace w @ [Printed msg]\<rparr>"

text \<open>Python's \<open>int(x)\<close> on a float truncates towards zero.\<close>

definition py_int :: "rat \<Rightarrow> int" where
  "py_int x = (if 0 \<le> x then \<lfloor>x\<rfloor> else \<lceil>x\<rceil>)"

section \<open>session.py: class Session\<close>

text \<open>
  The attribute \<open>_session_expiry\<close> does not exist before the first \<open>start_session\<close> or
  \<open>expire_session\<close>: it is \<open>None\<close> here until then.
\<close>

record session =
  session_duration :: int
  session_expiry :: "rat option"

definition Session_init :: "int \<Rightarrow> session" where
  "Session_init d = \<lparr>session_duration = d, session_expiry = None\<rparr>"

definition start_session :: "'a session_scheme \<Rightarrow> world \<Rightarrow> 'a session_scheme \<times> world" where
  "start_session self w =
     (case time_time w of (t, w') \<Rightarrow>
        (self\<lparr>session_expiry := Some (t + of_int (session_duration self))\<rparr>, w'))"

definition expire_session :: "'a session_scheme \<Rightarrow> world \<Rightarrow> 'a session_scheme \<times> world" where
  "expire_session self w =
     (case time_time w of (t, w') \<Rightarrow> (self\<lparr>session_expiry := Some t\<rparr>, w'))"

text \<open>
  \<open>time.time() > self._session_expiry\<close>: the clock is read first, then the missing
  attribute raises AttributeError, which is turned into the ValueError.
\<close>

definition has_expired :: "'a session_scheme \<Rightarrow> world \<Rightarrow> (exn + bool) \<times> world" where
  "has_expired self w =
     (case time_time w of (t, w') \<Rightarrow>
        (case session_expiry self of
           None \<Rightarrow> (Inl (ValueError NotStarted), w')
         | Some e \<Rightarrow> (Inr (t > e), w')))"

definition time_until_expiry :: "'a session_scheme \<Rightarrow> world \<Rightarrow> (exn + int) \<times> world" where
  "time_until_expiry self w =
     (case has_expired self w of
        (Inl err, w1) \<Rightarrow> (Inl err, w1)
      | (Inr b, w1) \<Rightarrow>
          if b then (Inr 0, w1)
          else (case session_expiry self of
                  None \<Rightarrow> (Inl AttributeError, w1)
                | Some e \<Rightarrow> (case time_time w1 of (t, w2) \<Rightarrow> (Inr (py_int (e - t)), w2))))"

definition time_since_expiry :: "'a session_scheme \<Rightarrow> world \<Rightarrow> (exn + int) \<times> world" where
  "time_since_expiry self w =
     (case has_expired self w of
        (Inl err, w1) \<Rightarrow> (Inl err, w1)
      | (Inr b, w1) \<Rightarrow>
          if \<not> b then (Inr 0, w1)
          else (case time_time w1 of (t, w2) \<Rightarrow>
                  (case session_expiry self of
                     None \<Rightarrow> (Inl AttributeError, w2)
                   | Some e \<Rightarrow> (Inr (py_int (t - e)), w2))))"

definition require_session :: "'a session_scheme \<Rightarrow> world \<Rightarrow> (exn + unit) \<times> world" where
  "require_session self w =
     (case has_expired self w of
        (Inl err, w1) \<Rightarrow> (Inl err, w1)
      | (Inr b, w1) \<Rightarrow>
          if b then
            (case time_since_expiry self w1 of
               (Inl err, w2) \<Rightarrow> (Inl err, w2)
             | (Inr n, w2) \<Rightarrow> (Inl (ValueError (SessionExpired n)), w2))
          else (Inr (), w1))"

section \<open>Text and dictionaries as Python has them\<close>

text \<open>
  A \<open>str\<close> is a list of characters; the model covers the code points below 256.
  \<open>is_space\<close> is \<open>str.isspace\<close> on one character of that range: the characters
  that \<open>str.strip()\<close> without argument removes.
\<close>

definition is_space :: "char \<Rightarrow> bool" where
  "is_space c = ((of_char c :: nat) \<in> set [9, 10, 11, 12, 13, 28, 29, 30, 31, 32, 133, 160])"

definition strip :: "string \<Rightarrow> string" where
  "strip s = rev (dropWhile is_space (rev (dropWhile is_space s)))"

text \<open>\<open>s.split(sep)\<close> with a one-character separator: cut at every occurrence.\<close>

fun split_on :: "char \<Rightarrow> string \<Rightarrow> string list" where
  "split_on sep [] = [[]]"
| "split_on sep (c # cs) =
     (if c = sep then [] # split_on sep cs
      else (case split_on sep cs of
              [] \<Rightarrow> [[c]]
            | p # ps \<Rightarrow> (c # p) # ps))"

text \<open>
  \<open>open(path)\<close> reads in text mode with universal newlines: \<open>\r\n\<close> and a lone
  \<open>\r\<close> arrive as \<open>\n\<close>. \<open>readlines()\<close> cuts after every \<open>\n\<close> and keeps it.
\<close>

fun universal_newlines :: "string \<Rightarrow> string" where
  "universal_newlines [] = []"
| "universal_newlines [c] = (if c = CHR 0x0D then [CHR 0x0A] else [c])"
| "universal_newlines (c # d # cs) =
     (if c = CHR 0x0D \<and> d = CHR 0x0A then CHR 0x0A # universal_newlines cs
      else if c = CHR 0x0D then CHR 0x0A # universal_newlines (d # cs)
      else c # universal_newlines (d # cs))"

fun split_lines :: "string \<Rightarrow> string list" where
  "split_lines [] = []"
| "split_lines (c # cs) =
     (if c = CHR 0x0A then [c] # split_lines cs
      else (case split_lines cs of
              [] \<Rightarrow> [[c]]
            | l # ls \<Rightarrow> (c # l) # ls))"

definition readlines :: "string \<Rightarrow> string list" where
  "readlines txt = split_lines (universal_newlines txt)"

text \<open>
  A \<open>dict\<close> keeps its keys in insertion order, and \<open>logout\<close> iterates over it: it is an
  association list. \<open>d[k] = v\<close> replaces the value of an existing key where it stands
  and appends a new key at the end.
\<close>

type_synonym dict = "(string \<times> string) list"

fun dict_set :: "string \<Rightarrow> string \<Rightarrow> dict \<Rightarrow> dict" where
  "dict_set k v [] = [(k, v)]"
| "dict_set k v ((k', v') # d) =
     (if k' = k then (k, v) # d else (k', v') # dict_set k v d)"

definition dict_get :: "dict \<Rightarrow> string \<Rightarrow> string option" where
  "dict_get d k = map_of d k"

section \<open>sample.py: class Database(Session)\<close>

definition USER_SESSION_LENGTH :: int where
  "USER_SESSION_LENGTH = 1800"

definition ADMIN_SESSION_LENGTH :: int where
  "ADMIN_SESSION_LENGTH = 900"

definition expired_message :: string where
  "expired_message = ''Your session has expired. Please login again.''"

definition missing_key :: string where
  "missing_key = ''Key does not exist''"

text \<open>
  The object after \<open>__init__\<close> has returned. \<open>database\<close> is \<open>None\<close> when \<open>_load\<close>
  returned Python's \<open>None\<close>.
\<close>

record database = session +
  database :: "dict option"
  access_level :: string
  database_path :: string

definition login :: "string \<Rightarrow> world \<Rightarrow> (exn + session) \<times> world" where
  "login level w =
     (if level = ''user'' then
        (case start_session (Session_init USER_SESSION_LENGTH) w of (s, w') \<Rightarrow> (Inr s, w'))
      else if level = ''admin'' then
        (case start_session (Session_init ADMIN_SESSION_LENGTH) w of (s, w') \<Rightarrow> (Inr s, w'))
      else (Inl (ValueError (InvalidAccessLevel level)), w))"

text \<open>The loop of \<open>_load\<close> over the lines, with the dictionary built so far.\<close>

fun load_lines :: "string list \<Rightarrow> dict \<Rightarrow> exn + dict" where
  "load_lines [] d = Inr d"
| "load_lines (line # rest) d =
     (case split_on CHR '':'' line of
        [k, v] \<Rightarrow> load_lines rest (dict_set k (strip v) d)
      | _ \<Rightarrow> Inl (ValueError UnpackMismatch))"

text \<open>
  \<open>_load\<close>. The \<open>except ValueError\<close> catches whatever ValueError \<open>require_session\<close>
  raises; the unpacking error of the loop is raised outside the \<open>try\<close> and escapes. The
  parameter \<open>flush\<close> is never read.
\<close>

definition load :: "'a session_scheme \<Rightarrow> string \<Rightarrow> bool \<Rightarrow> world \<Rightarrow> (exn + dict option) \<times> world" where
  "load self path flush w =
     (case require_session self w of
        (Inl (ValueError r), w1) \<Rightarrow> (Inr None, print_line expired_message w1)
      | (Inl err, w1) \<Rightarrow> (Inl err, w1)
      | (Inr u, w1) \<Rightarrow>
          (case files w1 path of
             None \<Rightarrow> (Inl FileNotFoundError, w1)
           | Some txt \<Rightarrow>
               (let w2 = w1\<lparr>trace := trace w1 @ [OpenedRead path]\<rparr> in
                case load_lines (readlines txt) [] of
                  Inl err \<Rightarrow> (Inl err, w2)
                | Inr d \<Rightarrow> (Inr (Some d), w2))))"

definition Database_init :: "string \<Rightarrow> string \<Rightarrow> world \<Rightarrow> (exn + database) \<times> world" where
  "Database_init level path w =
     (case login level w of
        (Inl err, w1) \<Rightarrow> (Inl err, w1)
      | (Inr s, w1) \<Rightarrow>
          (case load s path False w1 of
             (Inl err, w2) \<Rightarrow> (Inl err, w2)
           | (Inr d, w2) \<Rightarrow>
               (Inr \<lparr>session_duration = session_duration s,
                     session_expiry = session_expiry s,
                     database = d, access_level = level, database_path = path\<rparr>, w2)))"

text \<open>\<open>view\<close> returns a \<open>str\<close>, or \<open>None\<close> on the path that only prints.\<close>

definition view :: "database \<Rightarrow> string \<Rightarrow> world \<Rightarrow> (exn + string option) \<times> world" where
  "view self key w =
     (case require_session self w of
        (Inl (ValueError r), w1) \<Rightarrow> (Inr None, print_line expired_message w1)
      | (Inl err, w1) \<Rightarrow> (Inl err, w1)
      | (Inr u, w1) \<Rightarrow>
          (case database self of
             None \<Rightarrow> (Inl AttributeError, w1)
           | Some d \<Rightarrow>
               (Inr (Some (case dict_get d key of None \<Rightarrow> missing_key | Some v \<Rightarrow> v)), w1)))"

text \<open>\<open>modify\<close> returns the object as it is afterwards, next to the result.\<close>

definition modify :: "database \<Rightarrow> string \<Rightarrow> string \<Rightarrow> world \<Rightarrow> (exn + unit) \<times> database \<times> world" where
  "modify self key val w =
     (case require_session self w of
        (Inl (ValueError r), w1) \<Rightarrow> (Inr (), self, print_line expired_message w1)
      | (Inl err, w1) \<Rightarrow> (Inl err, self, w1)
      | (Inr u, w1) \<Rightarrow>
          if access_level self \<noteq> ''admin'' then (Inl PermissionError, self, w1)
          else (case database self of
                  None \<Rightarrow> (Inl TypeError, self, w1)
                | Some d \<Rightarrow> (Inr (), self\<lparr>database := Some (dict_set key val d)\<rparr>, w1)))"

text \<open>
  \<open>logout\<close>. Opening the file for writing empties it; the loop then writes key, colon
  and value of each entry, and nothing else. Iterating over \<open>None\<close> raises TypeError.
  The path is taken to be writable.
\<close>

definition serialize :: "dict \<Rightarrow> string" where
  "serialize d = concat (map (\<lambda>(k, v). k @ '':'' @ v) d)"

definition logout :: "database \<Rightarrow> world \<Rightarrow> (exn + unit) \<times> database \<times> world" where
  "logout self w =
     (case expire_session self w of (self', w1) \<Rightarrow>
        (let w2 = w1\<lparr>files := (files w1)(database_path self' \<mapsto> []),
                     trace := trace w1 @ [OpenedWrite (database_path self')]\<rparr> in
         case database self' of
           None \<Rightarrow> (Inl TypeError, self', w2)
         | Some d \<Rightarrow>
             (Inr (), self', w2\<lparr>files := (files w2)(database_path self' \<mapsto> serialize d)\<rparr>)))"

section \<open>Vocabulary of the properties\<close>

text \<open>
  A session is expired, or live, in a world when \<open>has_expired\<close> says so at the next
  reading of the clock. Neither holds of a session whose expiry was never set.
\<close>

definition expired :: "'a session_scheme \<Rightarrow> world \<Rightarrow> bool" where
  "expired self w = (fst (has_expired self w) = Inr True)"

definition live :: "'a session_scheme \<Rightarrow> world \<Rightarrow> bool" where
  "live self w = (fst (has_expired self w) = Inr False)"

text \<open>
  The entry a line stands for when it is cut at its first colon only, as the specification
  words it: the key is the text before the first colon, the value the stripped rest.
\<close>

definition first_colon_entry :: "string \<Rightarrow> string \<times> string" where
  "first_colon_entry line =
     (takeWhile (\<lambda>c. c \<noteq> CHR '':'') line,
      strip (drop 1 (dropWhile (\<lambda>c. c \<noteq> CHR '':'') line)))"

subsection \<open>Concrete worlds and objects\<close>

text \<open>
  A world whose clock stands still at \<open>t\<close>, and one whose clock advances by one second
  from one reading to the next; the file \<open>db\<close> holds \<open>txt\<close>.
\<close>

definition frozen_world :: "rat \<Rightarrow> string \<Rightarrow> world" where
  "frozen_world t txt =
     \<lparr>clock = (\<lambda>n. t), ticks = 0, files = [''db'' \<mapsto> txt], trace = []\<rparr>"

definition ticking_world :: "string \<Rightarrow> world" where
  "ticking_world txt =
     \<lparr>clock = (\<lambda>n. of_nat n), ticks = 0, files = [''db'' \<mapsto> txt], trace = []\<rparr>"

text \<open>
  A world whose clock reads \<open>a\<close> at the first call and \<open>b\<close> at every later one.
\<close>

definition stepping_world :: "rat \<Rightarrow> rat \<Rightarrow> string \<Rightarrow> world" where
  "stepping_world a b txt =
     \<lparr>clock = (\<lambda>n. if n = 0 then a else b), ticks = 0,
      files = [''db'' \<mapsto> txt], trace = []\<rparr>"

definition sample_text :: string where
  "sample_text = ''a:1\<newline>b:2\<newline>''"

text \<open>A file with a key on two lines and blanks around a value.\<close>

definition duplicate_text :: string where
  "duplicate_text = ''a:1\<newline>b: 2 \<newline>a:3\<newline>''"

text \<open>The objects that \<open>Database(level, "db")\<close> builds from \<open>sample_text\<close> at time 0.\<close>

definition admin_store :: database where
  "admin_store =
     \<lparr>session_duration = 900, session_expiry = Some 900,
      database = Some [(''a'', ''1''), (''b'', ''2'')],
      access_level = ''admin'', database_path = ''db''\<rparr>"

definition user_store :: database where
  "user_store =
     \<lparr>session_duration = 1800, session_expiry = Some 1800,
      database = Some [(''a'', ''1''), (''b'', ''2'')],
      access_level = ''user'', database_path = ''db''\<rparr>"

section \<open>The session\<close>

lemma has_expired_Some:
  "session_expiry self = Some e \<Longrightarrow>
   has_expired self w = (Inr (e < clock w (ticks w)), w\<lparr>ticks := Suc (ticks w)\<rparr>)"
  by (simp add: has_expired_def time_time_def)

lemma has_expired_None:
  "session_expiry self = None \<Longrightarrow>
   has_expired self w = (Inl (ValueError NotStarted), w\<lparr>ticks := Suc (ticks w)\<rparr>)"
  by (simp add: has_expired_def time_time_def)

lemma expired_iff:
  "expired self w \<longleftrightarrow> (\<exists>e. session_expiry self = Some e \<and> e < clock w (ticks w))"
  by (cases "session_expiry self")
    (simp_all add: expired_def has_expired_Some has_expired_None)

lemma live_iff:
  "live self w \<longleftrightarrow> (\<exists>e. session_expiry self = Some e \<and> \<not> e < clock w (ticks w))"
  by (cases "session_expiry self")
    (simp_all add: live_def has_expired_Some has_expired_None)

lemma time_until_expiry_Some:
  "session_expiry self = Some e \<Longrightarrow>
   time_until_expiry self w =
     (if e < clock w (ticks w) then (Inr 0, w\<lparr>ticks := Suc (ticks w)\<rparr>)
      else (Inr (py_int (e - clock w (Suc (ticks w)))), w\<lparr>ticks := Suc (Suc (ticks w))\<rparr>))"
  by (simp add: time_until_expiry_def has_expired_Some time_time_def)

lemma time_since_expiry_Some:
  "session_expiry self = Some e \<Longrightarrow>
   time_since_expiry self w =
     (if e < clock w (ticks w)
      then (Inr (py_int (clock w (Suc (ticks w)) - e)), w\<lparr>ticks := Suc (Suc (ticks w))\<rparr>)
      else (Inr 0, w\<lparr>ticks := Suc (ticks w)\<rparr>))"
  by (simp add: time_since_expiry_def has_expired_Some time_time_def)

lemma py_int_nonneg: "0 \<le> x \<Longrightarrow> 0 \<le> py_int x"
  by (simp add: py_int_def)

lemma py_int_above_minus_one: "- 1 < x \<Longrightarrow> 0 \<le> py_int x"
  unfolding py_int_def by (auto simp: le_ceiling_iff)

text \<open>On a live session \<open>require_session\<close> reads the clock once and does nothing else.\<close>

lemma require_session_live:
  "live self w \<Longrightarrow> require_session self w = (Inr (), w\<lparr>ticks := Suc (ticks w)\<rparr>)"
  by (auto simp: live_iff require_session_def has_expired_Some)

text \<open>
  On an expired session it raises the ValueError that carries what \<open>time_since_expiry\<close>
  returns at the following readings; only the clock has been read.
\<close>

lemma require_session_expired:
  "expired self w \<Longrightarrow>
   \<exists>w'. require_session self w =
          (Inl (ValueError (SessionExpired (projr (fst (time_since_expiry self
                  (w\<lparr>ticks := Suc (ticks w)\<rparr>)))))), w') \<and>
        files w' = files w \<and> trace w' = trace w"
  by (auto simp: expired_iff require_session_def has_expired_Some time_since_expiry_Some)

text \<open>
  After \<open>expire_session\<close> the session is expired exactly when the clock has moved on since
  the reading that \<open>expire_session\<close> took.
\<close>

lemma expired_after_expire_session:
  "expired (fst (expire_session self w)) (snd (expire_session self w)) \<longleftrightarrow>
   clock w (ticks w) < clock w (Suc (ticks w))"
  by (simp add: expired_iff expire_session_def time_time_def)

lemma live_after_start_session:
  "0 \<le> session_duration self \<Longrightarrow> clock w (Suc (ticks w)) \<le> clock w (ticks w) + of_int (session_duration self) \<Longrightarrow>
   live (fst (start_session self w)) (snd (start_session self w))"
  by (simp add: live_iff start_session_def time_time_def)

subsection \<open>Queries on a session that was never started\<close>

text \<open>
  Claim C7 at the input where it fails. \<open>Session(5)\<close> followed by
  \<open>expire_session()\<close> is a session on which \<open>start_session\<close> has never been called.
  \<open>expire_session\<close> creates the attribute \<open>_session_expiry\<close>, whose absence is the
  only sign of an unstarted session that \<open>has_expired\<close> looks for: the three queries
  return values instead of raising "session has not been started yet", and
  \<open>require_session\<close> reports a session that expired 3 seconds ago (the clock reads
  0, 1, 2, ...: expiry 0, queried from reading 1 on).
\<close>

theorem expire_before_start_queries_return:
  "(case expire_session (Session_init 5) (ticking_world []) of
      (s, w) \<Rightarrow>
        fst (has_expired s w) = Inr True \<and>
        fst (time_until_expiry s w) = Inr 0 \<and>
        fst (time_since_expiry s w) = Inr 2 \<and>
        fst (require_session s w) = Inl (ValueError (SessionExpired 3)))"
  by code_simp

text \<open>
  On a session on which neither \<open>start_session\<close> nor \<open>expire_session\<close> has been
  called the attribute does not exist, and each of the three queries raises the
  ValueError "session has not been started yet"; so does \<open>require_session\<close>.
\<close>

lemma unset_expiry_queries_fail:
  "session_expiry self = None \<Longrightarrow>
     fst (has_expired self w) = Inl (ValueError NotStarted) \<and>
     fst (time_until_expiry self w) = Inl (ValueError NotStarted) \<and>
     fst (time_since_expiry self w) = Inl (ValueError NotStarted) \<and>
     fst (require_session self w) = Inl (ValueError NotStarted)"
  by (simp add: has_expired_None time_until_expiry_def time_since_expiry_def
      require_session_def)

lemma fresh_session_queries_fail:
  "fst (has_expired (Session_init d) w) = Inl (ValueError NotStarted) \<and>
   fst (time_until_expiry (Session_init d) w) = Inl (ValueError NotStarted) \<and>
   fst (time_since_expiry (Session_init d) w) = Inl (ValueError NotStarted)"
  using unset_expiry_queries_fail [of "Session_init d" w]
  by (simp add: Session_init_def)

subsection \<open>Time until and since expiry\<close>

text \<open>
  Claim C10 at the input where it fails. \<open>time_until_expiry\<close> reads the clock twice:
  once in \<open>has_expired\<close>, once in the subtraction. On a session that expires at 900,
  with the first reading 898.5 and the second 901, the session is found live and the
  property returns \<open>int(900 - 901) = -1\<close>, where its docstring promises 0 for a session
  that has expired.
\<close>

theorem time_until_expiry_negative:
  "session_expiry admin_store = Some 900 \<and>
   live admin_store (stepping_world (1797 / 2) 901 []) \<and>
   fst (time_until_expiry admin_store (stepping_world (1797 / 2) 901 [])) = Inr (- 1) \<and>
   fst (time_since_expiry admin_store (stepping_world (1797 / 2) 901 [])) = Inr 0"
  by code_simp

text \<open>
  Whatever the clock does, one of the two values is 0: \<open>time_since_expiry\<close> on a live
  session, \<open>time_until_expiry\<close> on an expired one.
\<close>

lemma expiry_times_one_is_zero:
  assumes "session_expiry self = Some e"
  shows "\<exists>u v. fst (time_until_expiry self w) = Inr u \<and>
               fst (time_since_expiry self w) = Inr v \<and>
               (u = 0 \<or> v = 0) \<and>
               (live self w \<longrightarrow> v = 0) \<and> (expired self w \<longrightarrow> u = 0)"
  using assms
  by (auto simp: time_until_expiry_Some time_since_expiry_Some live_iff expired_iff)

text \<open>
  The sign of each value is decided by the second reading alone: \<open>time_until_expiry\<close>
  is negative exactly when the session is live at the first reading and the second is a
  second or more past the expiry; \<open>time_since_expiry\<close> is negative exactly when the
  session is expired at the first reading and the second is a second or more before
  the expiry.
\<close>

lemma py_int_nonneg_iff: "0 \<le> py_int x \<longleftrightarrow> - 1 < x"
  unfolding py_int_def by (auto simp: le_ceiling_iff)

lemma expiry_times_sign:
  assumes "session_expiry self = Some e"
  shows "\<exists>u v. fst (time_until_expiry self w) = Inr u \<and>
               fst (time_since_expiry self w) = Inr v \<and>
               (0 \<le> u \<longleftrightarrow> e < clock w (ticks w) \<or> clock w (Suc (ticks w)) < e + 1) \<and>
               (0 \<le> v \<longleftrightarrow> \<not> e < clock w (ticks w) \<or> e - 1 < clock w (Suc (ticks w)))"
  using assms
  by (auto simp: time_until_expiry_Some time_since_expiry_Some py_int_nonneg_iff)

text \<open>
  So both values are non-negative when the clock does not run backwards and moves by
  less than a second between the two readings of a query, as it does when both readings
  are the one time of the query.
\<close>

lemma expiry_times_nonnegative:
  assumes "session_expiry self = Some e"
    and "clock w (ticks w) \<le> clock w (Suc (ticks w))"
    and "clock w (Suc (ticks w)) < clock w (ticks w) + 1"
  shows "\<exists>u v. fst (time_until_expiry self w) = Inr u \<and>
               fst (time_since_expiry self w) = Inr v \<and>
               0 \<le> u \<and> 0 \<le> v \<and> (u = 0 \<or> v = 0) \<and>
               (live self w \<longrightarrow> v = 0) \<and> (expired self w \<longrightarrow> u = 0)"
  using assms
  by (auto simp: time_until_expiry_Some time_since_expiry_Some live_iff expired_iff
      intro!: py_int_nonneg py_int_above_minus_one)

text \<open>The values at 1000.5 and at 898.5, the clock standing still.\<close>

lemma expiry_times_examples:
  "fst (time_since_expiry admin_store (frozen_world (2001 / 2) [])) = Inr 100"
  "fst (time_until_expiry admin_store (frozen_world (2001 / 2) [])) = Inr 0"
  "fst (time_until_expiry admin_store (frozen_world (1797 / 2) [])) = Inr 1"
  "fst (time_since_expiry admin_store (frozen_world (1797 / 2) [])) = Inr 0"
  by code_simp+

subsection \<open>Expiring a session\<close>

text \<open>
  Claim C4 at the input where it fails. A session of 5 seconds is started and then expired
  while the clock reads 200 at every call: \<open>expire_session\<close> stores 200, the next
  \<open>has_expired\<close> computes \<open>200 > 200\<close> and returns False, and \<open>require_session\<close>
  returns without raising.
\<close>

theorem expire_session_same_reading_still_live:
  "(case start_session (Session_init 5) (frozen_world 200 []) of
      (s, w) \<Rightarrow>
        (case expire_session s w of
           (s', w') \<Rightarrow>
             session_expiry s' = Some 200 \<and>
             fst (has_expired s' w') = Inr False \<and>
             fst (require_session s' w') = Inr ()))"
  by code_simp

text \<open>
  The rest of the claim holds: once the clock has passed the stored expiry,
  \<open>require_session\<close> raises the ValueError that carries the truncated seconds since
  expiry (as read one and two readings later), and on a live session it returns nothing
  and changes nothing but the count of readings.
\<close>

lemma require_session_carries_elapsed:
  assumes "session_expiry self = Some e" and "e < clock w (ticks w)"
    and "e < clock w (Suc (ticks w))"
  shows "fst (require_session self w) =
           Inl (ValueError (SessionExpired (py_int (clock w (Suc (Suc (ticks w))) - e))))"
  using assms
  by (simp add: require_session_def has_expired_Some time_since_expiry_Some)

section \<open>Text and dictionaries\<close>

text \<open>
  \<open>strip\<close> removes characters at the two ends only, all of them whitespace, and what
  it leaves neither starts nor ends with whitespace.
\<close>

lemma strip_decomp:
  "\<exists>a b. s = a @ strip s @ b \<and> (\<forall>c\<in>set a. is_space c) \<and> (\<forall>c\<in>set b. is_space c)"
proof -
  define t where "t = dropWhile is_space s"
  have s: "s = takeWhile is_space s @ t"
    by (simp add: t_def)
  have "rev (rev t) = rev (takeWhile is_space (rev t) @ dropWhile is_space (rev t))"
    by (simp only: takeWhile_dropWhile_id)
  then have t: "t = strip s @ rev (takeWhile is_space (rev t))"
    by (simp only: rev_rev_ident rev_append strip_def t_def)
  have a: "\<forall>c\<in>set (takeWhile is_space s). is_space c"
    by (auto dest: set_takeWhileD)
  have b: "\<forall>c\<in>set (rev (takeWhile is_space (rev t))). is_space c"
    by (auto dest: set_takeWhileD)
  from s t have "s = takeWhile is_space s @ strip s @ rev (takeWhile is_space (rev t))"
    by simp
  with a b show ?thesis by blast
qed

lemma strip_ends:
  assumes "strip s \<noteq> []"
  shows "\<not> is_space (hd (strip s)) \<and> \<not> is_space (last (strip s))"
proof -
  define t where "t = dropWhile is_space s"
  define u where "u = dropWhile is_space (rev t)"
  have strip: "strip s = rev u"
    by (simp add: strip_def t_def u_def)
  with assms have u: "u \<noteq> []" by simp
  then have t: "t \<noteq> []" by (auto simp: u_def)
  have "rev t = takeWhile is_space (rev t) @ u"
    by (simp add: u_def)
  then have "last (rev t) = last u"
    using u by (metis last_appendR)
  then have "last u = hd t"
    using t by (simp add: last_rev)
  moreover have "\<not> is_space (hd t)"
    using t unfolding t_def by (rule hd_dropWhile)
  moreover have "\<not> is_space (hd u)"
    using u unfolding u_def by (rule hd_dropWhile)
  ultimately show ?thesis
    using u by (simp add: strip hd_rev last_rev)
qed

text \<open>
  \<open>split_on\<close> returns one piece more than there are separators; with exactly one
  separator the two pieces are the text before it and the text after it.
\<close>

lemma split_on_not_Nil: "split_on sep s \<noteq> []"
  by (induction s) (auto split: list.splits)

lemma length_split_on: "length (split_on sep s) = Suc (count_list s sep)"
  by (induction s) (auto split: list.splits simp: split_on_not_Nil)

lemma split_on_no_sep: "count_list s sep = 0 \<Longrightarrow> split_on sep s = [s]"
  by (induction s) (auto split: if_splits list.splits)

lemma split_on_one_sep:
  "count_list s sep = 1 \<Longrightarrow>
   split_on sep s = [takeWhile (\<lambda>c. c \<noteq> sep) s, drop 1 (dropWhile (\<lambda>c. c \<noteq> sep) s)]"
proof (induction s)
  case Nil
  then show ?case by simp
next
  case (Cons c cs)
  show ?case
  proof (cases "c = sep")
    case True
    with Cons.prems have "count_list cs sep = 0" by simp
    with True show ?thesis by (simp add: split_on_no_sep)
  next
    case False
    with Cons.prems have "count_list cs sep = 1" by simp
    with False Cons.IH show ?thesis by simp
  qed
qed

text \<open>Assignment to a key of a dictionary, read as a map.\<close>

lemma map_of_dict_set: "map_of (dict_set k v d) = (map_of d)(k \<mapsto> v)"
  by (induction d) (auto simp: fun_eq_iff)

lemma dict_get_dict_set:
  "dict_get (dict_set k v d) k' = (if k' = k then Some v else dict_get d k')"
  by (simp add: dict_get_def map_of_dict_set)

text \<open>
  The loop of \<open>_load\<close>: when every line has exactly one colon it ends with the
  dictionary in which a later line overrides an earlier one with the same key; a line
  with no colon, or with more than one, stops it with the unpacking error.
\<close>

lemma load_lines_one_colon:
  "\<forall>l\<in>set lines. count_list l CHR '':'' = 1 \<Longrightarrow>
   \<exists>d'. load_lines lines d = Inr d' \<and>
        map_of d' = map_of d ++ map_of (rev (map first_colon_entry lines))"
proof (induction lines arbitrary: d)
  case Nil
  then show ?case by simp
next
  case (Cons l ls)
  then have one: "count_list l CHR '':'' = 1" and rest: "\<forall>l\<in>set ls. count_list l CHR '':'' = 1"
    by simp_all
  obtain k v where kv: "first_colon_entry l = (k, v)" by (cases "first_colon_entry l")
  with one have step: "load_lines (l # ls) d = load_lines ls (dict_set k v d)"
    by (auto simp: split_on_one_sep first_colon_entry_def)
  from Cons.IH [OF rest, of "dict_set k v d"] obtain d' where
    d': "load_lines ls (dict_set k v d) = Inr d'"
        "map_of d' = map_of (dict_set k v d) ++ map_of (rev (map first_colon_entry ls))"
    by blast
  have "map_of d' = map_of d ++ map_of (rev (map first_colon_entry (l # ls)))"
    by (simp add: d'(2) map_of_dict_set kv fun_eq_iff map_add_def split: option.splits)
  with step d'(1) show ?case by simp
qed

lemma load_lines_bad_line:
  "\<exists>l\<in>set lines. count_list l CHR '':'' \<noteq> 1 \<Longrightarrow>
   load_lines lines d = Inl (ValueError UnpackMismatch)"
proof (induction lines arbitrary: d)
  case Nil
  then show ?case by simp
next
  case (Cons l ls)
  show ?case
  proof (cases "count_list l CHR '':'' = 1")
    case True
    with Cons.prems have "\<exists>l\<in>set ls. count_list l CHR '':'' \<noteq> 1" by auto
    from Cons.IH [OF this] True show ?thesis
      by (simp add: split_on_one_sep)
  next
    case False
    then have "length (split_on CHR '':'' l) \<noteq> 2" by (simp add: length_split_on)
    then show ?thesis
      by (auto split: list.splits)
  qed
qed

lemma readlines_duplicate_text:
  "readlines duplicate_text = [''a:1\<newline>'', ''b: 2 \<newline>'', ''a:3\<newline>'']"
  by code_simp

section \<open>The store\<close>

subsection \<open>Operations on an expired session\<close>

text \<open>
  Whatever \<open>require_session\<close> raises on an expired session is a ValueError, so each
  of the three operations takes its \<open>except\<close> branch: print and \<open>return\<close>.
\<close>

lemma view_expired:
  "expired self w \<Longrightarrow>
   \<exists>w'. view self key w = (Inr None, print_line expired_message w') \<and>
        files w' = files w \<and> trace w' = trace w"
  using require_session_expired [of self w]
  by (auto simp: view_def)

lemma modify_expired:
  "expired self w \<Longrightarrow>
   \<exists>w'. modify self key val w = (Inr (), self, print_line expired_message w') \<and>
        files w' = files w \<and> trace w' = trace w"
  using require_session_expired [of self w]
  by (auto simp: modify_def)

lemma load_expired:
  "expired self w \<Longrightarrow>
   \<exists>w'. load self path flush w = (Inr None, print_line expired_message w') \<and>
        files w' = files w \<and> trace w' = trace w"
  using require_session_expired [of self w]
  by (auto simp: load_def)

text \<open>
  Claim C1, as amended. On every store whose session has expired, \<open>view\<close>,
  \<open>modify\<close> and \<open>_load\<close> catch the ValueError of \<open>require_session\<close> themselves:
  each prints "Your session has expired. Please login again." and returns normally, so
  that no error reaches the caller.
\<close>

theorem expired_session_is_caught:
  "expired self w \<Longrightarrow>
     \<not> isl (fst (view self key w)) \<and>
     trace (snd (view self key w)) =
       trace w @ [Printed ''Your session has expired. Please login again.''] \<and>
     \<not> isl (fst (modify self key val w)) \<and>
     trace (snd (snd (modify self key val w))) =
       trace w @ [Printed ''Your session has expired. Please login again.''] \<and>
     \<not> isl (fst (load self path flush w)) \<and>
     trace (snd (load self path flush w)) =
       trace w @ [Printed ''Your session has expired. Please login again.'']"
  using view_expired [of self w key] modify_expired [of self w key val]
    load_expired [of self w path flush]
  by (auto simp: print_line_def expired_message_def)

text \<open>The theorem at the user store built at time 0, used at time 2000.\<close>

theorem expired_session_is_caught_witness:
  "expired user_store (frozen_world 2000 sample_text) \<and>
   \<not> isl (fst (view user_store ''a'' (frozen_world 2000 sample_text))) \<and>
   trace (snd (view user_store ''a'' (frozen_world 2000 sample_text))) =
     [Printed ''Your session has expired. Please login again.''] \<and>
   \<not> isl (fst (modify user_store ''a'' ''9'' (frozen_world 2000 sample_text))) \<and>
   trace (snd (snd (modify user_store ''a'' ''9'' (frozen_world 2000 sample_text)))) =
     [Printed ''Your session has expired. Please login again.''] \<and>
   \<not> isl (fst (load user_store ''db'' False (frozen_world 2000 sample_text))) \<and>
   trace (snd (load user_store ''db'' False (frozen_world 2000 sample_text))) =
     [Printed ''Your session has expired. Please login again.'']"
proof -
  have h: "expired user_store (frozen_world 2000 sample_text)"
    by code_simp
  have t: "trace (frozen_world 2000 sample_text) = []"
    by (simp add: frozen_world_def)
  from expired_session_is_caught [OF h, of "''a''" "''9''" "''db''" False] h t
  show ?thesis by simp
qed

text \<open>
  Claim C1 as stated fails: on that store, expired for 200 seconds, the three operations
  return to the caller without any error, where the claim has them pass the expiry on
  as an error the caller can catch.
\<close>

theorem expired_view_counterexample:
  "expired user_store (frozen_world 2000 sample_text) \<and>
   fst (view user_store ''a'' (frozen_world 2000 sample_text)) = Inr None \<and>
   fst (modify user_store ''a'' ''9'' (frozen_world 2000 sample_text)) = Inr () \<and>
   fst (load user_store ''db'' False (frozen_world 2000 sample_text)) = Inr None"
  by code_simp

text \<open>
  Claim C9. On every store whose session has expired, \<open>view\<close>, \<open>modify\<close> and
  \<open>_load\<close> return \<open>None\<close> and raise nothing; the object is the same afterwards
  (\<open>view\<close> and \<open>_load\<close> assign to no attribute at all) and no file is touched. The
  \<open>None\<close> of \<open>view\<close> is not the string "Key does not exist".
\<close>

theorem expired_session_returns_None:
  "expired self w \<Longrightarrow>
     fst (view self key w) = Inr None \<and>
     fst (view self key w) \<noteq> Inr (Some ''Key does not exist'') \<and>
     fst (modify self key val w) = Inr () \<and>
     fst (snd (modify self key val w)) = self \<and>
     fst (load self path flush w) = Inr None \<and>
     files (snd (view self key w)) = files w \<and>
     files (snd (snd (modify self key val w))) = files w \<and>
     files (snd (load self path flush w)) = files w"
  using view_expired [of self w key] modify_expired [of self w key val]
    load_expired [of self w path flush]
  by (auto simp: print_line_def)

text \<open>The theorem at the admin store built at time 0, used at time 901.\<close>

theorem expired_session_returns_None_witness:
  "expired admin_store (frozen_world 901 sample_text) \<and>
   fst (view admin_store ''a'' (frozen_world 901 sample_text)) = Inr None \<and>
   fst (modify admin_store ''a'' ''9'' (frozen_world 901 sample_text)) = Inr () \<and>
   fst (snd (modify admin_store ''a'' ''9'' (frozen_world 901 sample_text))) = admin_store \<and>
   fst (load admin_store ''db'' False (frozen_world 901 sample_text)) = Inr None"
proof -
  have h: "expired admin_store (frozen_world 901 sample_text)"
    by code_simp
  from expired_session_returns_None [OF h, of "''a''" "''9''" "''db''" False] h
  show ?thesis by simp
qed

subsection \<open>Construction\<close>

text \<open>
  Claim C8. \<open>Database(level, path)\<close> with a level that is neither "user" nor "admin"
  raises the ValueError "Invalid access level" and leaves the world as it was: the clock
  has not been read, so no session was started, and nothing was opened or printed.
\<close>

theorem invalid_access_level_rejected:
  "level \<noteq> ''user'' \<Longrightarrow> level \<noteq> ''admin'' \<Longrightarrow>
   Database_init level path w = (Inl (ValueError (InvalidAccessLevel level)), w)"
  by (simp add: Database_init_def login_def)

text \<open>The theorem at the level "superuser".\<close>

theorem invalid_access_level_rejected_witness:
  "''superuser'' \<noteq> ''user'' \<and> ''superuser'' \<noteq> ''admin'' \<and>
   Database_init ''superuser'' ''db'' (frozen_world 0 sample_text) =
     (Inl (ValueError (InvalidAccessLevel ''superuser'')), frozen_world 0 sample_text)"
  using invalid_access_level_rejected [of "''superuser''" "''db''" "frozen_world 0 sample_text"]
  by simp

text \<open>
  With a valid level the construction reads the clock twice (start, then the check of
  \<open>_load\<close>) and opens the file; from \<open>sample_text\<close> it builds the two sample stores.
\<close>

lemma Database_init_sample:
  "fst (Database_init ''admin'' ''db'' (frozen_world 0 sample_text)) = Inr admin_store"
  "fst (Database_init ''user'' ''db'' (frozen_world 0 sample_text)) = Inr user_store"
  "trace (snd (Database_init ''admin'' ''db'' (frozen_world 0 sample_text))) = [OpenedRead ''db'']"
  "ticks (snd (Database_init ''admin'' ''db'' (frozen_world 0 sample_text))) = 2"
  by code_simp+

text \<open>On a live session \<open>_load\<close> never returns \<open>None\<close>.\<close>

lemma load_live_not_None:
  "live self w \<Longrightarrow> fst (load self path flush w) \<noteq> Inr None"
  using require_session_live [of self w]
  by (auto simp: load_def Let_def split: option.splits sum.splits)

subsection \<open>Viewing and modifying on a live session\<close>

text \<open>
  Claim C6, as amended. On every store with a live session that holds a loaded mapping,
  \<open>view(key)\<close> returns the value stored under \<open>key\<close> when there is one and the
  string "Key does not exist" otherwise; it raises nothing for a missing key.
\<close>

theorem view_on_live_session:
  assumes "live self w" and "database self = Some d"
  shows "fst (view self key w) =
           Inr (Some (case dict_get d key of
                        Some v \<Rightarrow> v
                      | None \<Rightarrow> ''Key does not exist''))"
  using require_session_live [OF assms(1)] assms(2)
  by (simp add: view_def missing_key_def split: option.splits)

text \<open>The theorem at the admin store loaded from \<open>sample_text\<close>, for the keys a, b and z.\<close>

theorem view_on_live_session_witness:
  "live admin_store (frozen_world 0 sample_text) \<and>
   database admin_store = Some [(''a'', ''1''), (''b'', ''2'')] \<and>
   fst (view admin_store ''a'' (frozen_world 0 sample_text)) = Inr (Some ''1'') \<and>
   fst (view admin_store ''b'' (frozen_world 0 sample_text)) = Inr (Some ''2'') \<and>
   fst (view admin_store ''z'' (frozen_world 0 sample_text)) = Inr (Some ''Key does not exist'')"
proof -
  have a: "live admin_store (frozen_world 0 sample_text)"
    by code_simp
  have d: "database admin_store = Some [(''a'', ''1''), (''b'', ''2'')]"
    by (simp add: admin_store_def)
  from view_on_live_session [OF a d, of "''a''"] view_on_live_session [OF a d, of "''b''"]
    view_on_live_session [OF a d, of "''z''"] a d
  show ?thesis by (simp add: dict_get_def)
qed

text \<open>
  Claim C6 as stated fails. The clock reads 0 when \<open>Database("admin", "db")\<close> starts its
  session and 1000 from then on: \<open>_load\<close> finds the session expired, prints and
  returns \<open>None\<close>, and the constructor stores that as the mapping. After
  \<open>start_session()\<close> the session is live, and \<open>view\<close> raises AttributeError for a
  key of the file as for any other.
\<close>

theorem view_without_mapping_counterexample:
  "(case Database_init ''admin'' ''db'' (stepping_world 0 1000 sample_text) of
      (Inl err, w0) \<Rightarrow> False
    | (Inr s0, w0) \<Rightarrow>
        (case start_session s0 w0 of
           (s1, w1) \<Rightarrow>
             database s1 = None \<and> live s1 w1 \<and>
             fst (view s1 ''a'' w1) = Inl AttributeError \<and>
             fst (view s1 ''z'' w1) = Inl AttributeError))"
  by code_simp

text \<open>
  Claim C5, as amended. On every store with a live session: when the access level is not "admin",
  \<open>modify\<close> raises PermissionError and the object is unchanged; when it is "admin" and
  the store holds a loaded mapping, \<open>modify(key, value)\<close> sets \<open>key\<close> to
  \<open>value\<close> in the mapping of the object, leaves every other key as it was, and neither
  opens nor changes any file.
\<close>

theorem modify_on_live_session:
  assumes "live self w"
  shows "(access_level self \<noteq> ''admin'' \<longrightarrow>
            modify self key val w = (Inl PermissionError, self, w\<lparr>ticks := Suc (ticks w)\<rparr>)) \<and>
         (access_level self = ''admin'' \<and> database self = Some d \<longrightarrow>
            fst (modify self key val w) = Inr () \<and>
            fst (snd (modify self key val w)) = self\<lparr>database := Some (dict_set key val d)\<rparr> \<and>
            dict_get (dict_set key val d) key = Some val \<and>
            (\<forall>k. k \<noteq> key \<longrightarrow> dict_get (dict_set key val d) k = dict_get d k) \<and>
            files (snd (snd (modify self key val w))) = files w \<and>
            trace (snd (snd (modify self key val w))) = trace w)"
  using require_session_live [OF assms]
  by (simp add: modify_def dict_get_dict_set)

text \<open>The theorem at the user store and at the admin store loaded from \<open>sample_text\<close>.\<close>

theorem modify_on_live_session_witness:
  "live user_store (frozen_world 0 sample_text) \<and>
   fst (modify user_store ''a'' ''9'' (frozen_world 0 sample_text)) = Inl PermissionError \<and>
   fst (snd (modify user_store ''a'' ''9'' (frozen_world 0 sample_text))) = user_store \<and>
   live admin_store (frozen_world 0 sample_text) \<and>
   fst (modify admin_store ''a'' ''9'' (frozen_world 0 sample_text)) = Inr () \<and>
   database (fst (snd (modify admin_store ''a'' ''9'' (frozen_world 0 sample_text)))) =
     Some [(''a'', ''9''), (''b'', ''2'')] \<and>
   files (snd (snd (modify admin_store ''a'' ''9'' (frozen_world 0 sample_text)))) ''db'' =
     Some sample_text"
proof -
  have u: "live user_store (frozen_world 0 sample_text)"
    by code_simp
  have a: "live admin_store (frozen_world 0 sample_text)"
    by code_simp
  have lu: "access_level user_store \<noteq> ''admin''"
    by (simp add: user_store_def)
  have la: "access_level admin_store = ''admin'' \<and>
            database admin_store = Some [(''a'', ''1''), (''b'', ''2'')]"
    by (simp add: admin_store_def)
  from modify_on_live_session [OF u, of "''a''" "''9''"] lu
  have 1: "fst (modify user_store ''a'' ''9'' (frozen_world 0 sample_text)) = Inl PermissionError \<and>
           fst (snd (modify user_store ''a'' ''9'' (frozen_world 0 sample_text))) = user_store"
    by simp
  from modify_on_live_session [OF a, of "''a''" "''9''" "[(''a'', ''1''), (''b'', ''2'')]"] la
  have 2: "fst (modify admin_store ''a'' ''9'' (frozen_world 0 sample_text)) = Inr () \<and>
     database (fst (snd (modify admin_store ''a'' ''9'' (frozen_world 0 sample_text)))) =
       Some [(''a'', ''9''), (''b'', ''2'')] \<and>
     files (snd (snd (modify admin_store ''a'' ''9'' (frozen_world 0 sample_text)))) ''db'' =
       Some sample_text"
    by (simp add: frozen_world_def)
  from u a 1 2 show ?thesis by simp
qed

text \<open>
  Claim C5 as stated fails. On the admin store built while the clock jumps from 0 to
  1000, whose mapping is \<open>None\<close>, and made live again by \<open>start_session()\<close>,
  \<open>modify\<close> raises TypeError and inserts nothing.
\<close>

theorem modify_without_mapping_counterexample:
  "(case Database_init ''admin'' ''db'' (stepping_world 0 1000 sample_text) of
      (Inl err, w0) \<Rightarrow> False
    | (Inr s0, w0) \<Rightarrow>
        (case start_session s0 w0 of
           (s1, w1) \<Rightarrow>
             access_level s1 = ''admin'' \<and> live s1 w1 \<and>
             fst (modify s1 ''a'' ''9'' w1) = Inl TypeError \<and>
             database (fst (snd (modify s1 ''a'' ''9'' w1))) = None))"
  by code_simp

subsection \<open>Loading\<close>

text \<open>
  Claim C3, as amended. For every backing source read by \<open>_load\<close> on a live session:
  when every line contains exactly one colon, the line is cut at that colon, the value is
  stripped of leading and trailing whitespace, and of several lines with the same key
  the last one wins; when some line contains no colon or more than one, \<open>_load\<close>
  fails with the ValueError of the unpacking, so that a value cannot contain a colon.
\<close>

theorem load_cuts_at_single_colon:
  assumes "live self w" and "files w path = Some txt"
  shows "((\<forall>l\<in>set (readlines txt). count_list l CHR '':'' = 1) \<longrightarrow>
            (\<exists>d. fst (load self path flush w) = Inr (Some d) \<and>
                 (\<forall>k. dict_get d k = map_of (rev (map first_colon_entry (readlines txt))) k))) \<and>
         ((\<exists>l\<in>set (readlines txt). count_list l CHR '':'' \<noteq> 1) \<longrightarrow>
            fst (load self path flush w) = Inl (ValueError UnpackMismatch))"
proof (intro conjI impI)
  assume ok: "\<forall>l\<in>set (readlines txt). count_list l CHR '':'' = 1"
  from load_lines_one_colon [OF ok, of "[]"] obtain d where
    d: "load_lines (readlines txt) [] = Inr d"
       "map_of d = map_of [] ++ map_of (rev (map first_colon_entry (readlines txt)))"
    by blast
  from d(1) have "fst (load self path flush w) = Inr (Some d)"
    using require_session_live [OF assms(1)] assms(2)
    by (simp add: load_def)
  moreover from d(2) have "\<forall>k. dict_get d k = map_of (rev (map first_colon_entry (readlines txt))) k"
    by (simp add: dict_get_def)
  ultimately show "\<exists>d. fst (load self path flush w) = Inr (Some d) \<and>
      (\<forall>k. dict_get d k = map_of (rev (map first_colon_entry (readlines txt))) k)"
    by blast
next
  assume bad: "\<exists>l\<in>set (readlines txt). count_list l CHR '':'' \<noteq> 1"
  from load_lines_bad_line [OF bad, of "[]"]
  show "fst (load self path flush w) = Inl (ValueError UnpackMismatch)"
    using require_session_live [OF assms(1)] assms(2)
    by (simp add: load_def)
qed

text \<open>
  The theorem at a file with the key a on two lines and blanks around the value of b.
\<close>

theorem load_cuts_at_single_colon_witness:
  "live admin_store (frozen_world 0 duplicate_text) \<and>
   files (frozen_world 0 duplicate_text) ''db'' = Some duplicate_text \<and>
   list_all (\<lambda>l. count_list l CHR '':'' = 1) (readlines duplicate_text) \<and>
   (\<exists>d. fst (load admin_store ''db'' False (frozen_world 0 duplicate_text)) = Inr (Some d) \<and>
        dict_get d ''a'' = Some ''3'' \<and> dict_get d ''b'' = Some ''2'' \<and>
        dict_get d ''c'' = None)"
proof -
  have l: "live admin_store (frozen_world 0 duplicate_text)"
    by code_simp
  have f: "files (frozen_world 0 duplicate_text) ''db'' = Some duplicate_text"
    by (simp add: frozen_world_def)
  have ok: "\<forall>l\<in>set (readlines duplicate_text). count_list l CHR '':'' = 1"
    by (simp add: readlines_duplicate_text)
  have m: "map_of (rev (map first_colon_entry (readlines duplicate_text))) ''a'' = Some ''3''"
    "map_of (rev (map first_colon_entry (readlines duplicate_text))) ''b'' = Some ''2''"
    "map_of (rev (map first_colon_entry (readlines duplicate_text))) ''c'' = None"
    by code_simp+
  from load_cuts_at_single_colon [OF l f, of False] ok obtain d where
    "fst (load admin_store ''db'' False (frozen_world 0 duplicate_text)) = Inr (Some d)"
    "\<forall>k. dict_get d k = map_of (rev (map first_colon_entry (readlines duplicate_text))) k"
    by blast
  with m l f ok show ?thesis by (simp add: list_all_iff)
qed

text \<open>
  Claim C3 as stated fails: the line "a:b:c" cut at its first colon only would give the
  key a with the value b:c, and \<open>_load\<close> raises ValueError on it.
\<close>

theorem load_second_colon_counterexample:
  "live admin_store (frozen_world 0 ''a:b:c\<newline>'') \<and>
   first_colon_entry ''a:b:c\<newline>'' = (''a'', ''b:c'') \<and>
   fst (load admin_store ''db'' False (frozen_world 0 ''a:b:c\<newline>'')) =
     Inl (ValueError UnpackMismatch)"
  by code_simp

subsection \<open>Logging out\<close>

text \<open>
  Claim C2 at the input where it fails. An admin store is built from \<open>sample_text\<close>,
  \<open>modify("a", "9")\<close> and \<open>logout()\<close> follow. \<open>logout\<close> writes the entries one
  after the other with nothing between them: the file reads "a:9b:2", a single line with
  two colons, and constructing a store from it again raises ValueError in \<open>_load\<close>.
\<close>

theorem logout_drops_line_breaks:
  "(case Database_init ''admin'' ''db'' (frozen_world 0 sample_text) of
      (Inl err, w0) \<Rightarrow> False
    | (Inr s0, w0) \<Rightarrow>
        (case modify s0 ''a'' ''9'' w0 of
           (r1, s1, w1) \<Rightarrow>
             (case logout s1 w1 of
                (r2, s2, w2) \<Rightarrow>
                  r1 = Inr () \<and> r2 = Inr () \<and>
                  database s1 = Some [(''a'', ''9''), (''b'', ''2'')] \<and>
                  files w2 ''db'' = Some ''a:9b:2'' \<and>
                  fst (Database_init ''admin'' ''db'' w2) = Inl (ValueError UnpackMismatch))))"
  by code_simp

end
